theory Spec2Isabelle
  imports Complex_Main "HOL-Library.Multiset" "HOL-Library.Sublist"
begin

section \<open>The data of main.py\<close>

text \<open>
  The six tool classes that main.py imports from \<open>swag.tools\<close>. A tool is identified by
  its name, so a list of tools has unique names exactly when it is \<open>distinct\<close>.
\<close>

datatype tool =
    SearchInternet
  | ReadWebsite
  | SearchForNearbyPlacesOfType
  | Geocode
  | GetDistanceMatrix
  | OptimizeRoute

text \<open>The exceptions that the modelled code can raise.\<close>

datatype error = ConfigurationError | KeyError | IndexError | TypeError

text \<open>
  The module-level object \<open>assistant = Assistant(client=..., model=...)\<close>. main.py assigns
  its attribute \<open>system\<close> and calls \<open>define_tools\<close> on it, which sets the active tool set.
  Whatever else the class keeps (client, model name, message history) is the extension
  part of the record: the functions below are stated on \<open>'a Assistant_scheme\<close>.
\<close>

record Assistant =
  system :: string
  tools :: "tool list"

text \<open>The pydantic request models \<open>Query\<close>, \<open>UserPreference\<close>, \<open>TourGuideRequest\<close>
  and \<open>SamRequest\<close>.\<close>

record Query =
  query_type :: string
  query :: string

record UserPreference =
  preference :: string

text \<open>
  A Python float as far as main.py looks at it: the handlers only test a float for
  truth and pass it on. \<open>Finite 0\<close> stands for both \<open>0.0\<close> and \<open>-0.0\<close>, the two floats
  that are false.
\<close>

datatype pyfloat = Finite real | PosInf | NegInf | NaN

record TourGuideRequest =
  base_image :: string
  masked_image :: string
  location :: string
  lat :: pyfloat
  lon :: pyfloat

record SamRequest =
  image :: string
  clicks :: "int list list"

text \<open>
  The result \<open>g\<close> of the library call \<open>geocoder.ip("me")\<close>, as far as main.py reads it:
  \<open>g.city\<close> and \<open>g.country\<close> are a string or \<open>None\<close>, \<open>g.latlng\<close> is a list of floats
  or, when the lookup failed, \<open>None\<close>. The dictionary that \<open>get_location\<close> builds has
  exactly these three keys, so it is the same record with no extension.
\<close>

record ip_result =
  city :: "string option"
  country :: "string option"
  latlng :: "pyfloat list option"

text \<open>
  Starlette's \<open>Response\<close> and \<open>StreamingResponse\<close>: the status code (200 unless the
  caller passes another one, and main.py never does), the media type and the content.
\<close>

record 'b response =
  status_code :: nat
  media_type :: string
  body :: 'b

definition StreamingResponse :: "'b \<Rightarrow> string \<Rightarrow> 'b response" where
  "StreamingResponse content mt = \<lparr>status_code = 200, media_type = mt, body = content\<rparr>"

definition Response :: "'b \<Rightarrow> string \<Rightarrow> 'b response" where
  "Response content mt = \<lparr>status_code = 200, media_type = mt, body = content\<rparr>"

text \<open>
  The module-level state of the process: the one \<open>assistant\<close> object and the list
  \<open>user_preferences\<close>.
\<close>

record 'a process =
  assistant :: "'a Assistant_scheme"
  user_preferences :: "string list"

section \<open>Python's string operations used by main.py\<close>

text \<open>\<open>sep.join(xs)\<close>\<close>

fun join :: "string \<Rightarrow> string list \<Rightarrow> string" where
  "join sep [] = []"
| "join sep [x] = x"
| "join sep (x # y # ys) = x @ sep @ join sep (y # ys)"

text \<open>\<open>str(v)\<close> (what an f-string field does) for a value that is a string or \<open>None\<close>.\<close>

fun py_str :: "string option \<Rightarrow> string" where
  "py_str None = ''None''"
| "py_str (Some s) = s"

text \<open>Truth of a float: \<open>not x\<close> holds exactly for zero.\<close>

fun float_is_false :: "pyfloat \<Rightarrow> bool" where
  "float_is_false (Finite r) = (r = 0)"
| "float_is_false _ = False"

section \<open>The assistant's tool registry\<close>

text \<open>
  Modelled from the spec: \<open>Assistant.define_tools\<close>, which lives in swag/assistant.py and
  is not among the sources. Section 4.1: it replaces the currently active tool set, has
  no other side effect, and fails with \<open>ConfigurationError\<close> if the list contains
  duplicate names.
\<close>

definition define_tools :: "tool list \<Rightarrow> 'a Assistant_scheme \<Rightarrow> error + 'a Assistant_scheme" where
  "define_tools ts a = (if distinct ts then Inr (a\<lparr>tools := ts\<rparr>) else Inl ConfigurationError)"

section \<open>The endpoint /query_assistant\<close>

definition system_trip :: string where
  "system_trip =
    ''\<newline>'' @
    ''            You are an AI trip planner.\<newline>'' @
    ''            The user wants to travel, given a set of places and waypoints.\<newline>'' @
    ''\<newline>'' @
    ''            Your goal is to create a detailed trip plan including:\<newline>'' @
    ''            1. Route information (directions, distances, estimated travel times).\<newline>'' @
    ''            2. Suggested activities and attractions along the route and at the destination.\<newline>'' @
    ''            3. Potential accommodation options at the destination.\<newline>'' @
    ''            4. Any relevant warnings or advisories for the trip (e.g., road closures, weather).\<newline>'' @
    ''\<newline>'' @
    ''            Use tools to gather the necessary information. Provide the plan.\<newline>'' @
    ''            ''"

text \<open>
  \<open>system_template.format(query_type=..., location=..., preferences_str=...,
  additional_info=..., action=...)\<close>: the template with its named fields filled in.
\<close>

definition system_template_format ::
  "string \<Rightarrow> string \<Rightarrow> string \<Rightarrow> string \<Rightarrow> string \<Rightarrow> string" where
  "system_template_format qt loc prefs additional_info action =
    ''\<newline>'' @
    ''            You are an AI assistant helping a user find '' @ qt @ ''s in '' @ loc @ ''.\<newline>'' @
    ''            The user is looking for a '' @ qt @ '' to '' @ action @ ''.\<newline>'' @
    ''            The user's preferences are: '' @ prefs @ ''.\<newline>'' @
    ''            Your goal is to build a report of the top 5 '' @ qt @
      ''s that might suit the user's preferences,\<newline>'' @
    ''            including '' @ additional_info @ ''.''"

definition invalid_query_type :: "string \<Rightarrow> string" where
  "invalid_query_type qt =
    ''Invalid query type: '' @ qt @
    ''. Supported types are 'restaurant', 'place', and 'trip'.''"

text \<open>
  \<open>generate_response\<close> is an async generator. Its body up to the \<open>async for\<close> (lines
  113 to 155) runs without suspending. It ends in one of three ways: the shared assistant
  is configured and the generator goes on to the loop; the one message is yielded and the
  generator returns; or \<open>define_tools\<close> raises. The function gives the way it ended and the
  shared assistant object as that first step leaves it.
\<close>

datatype first_step = Proceed | YieldReturn string | Raise error

definition generate_response_begin ::
  "string \<Rightarrow> string \<Rightarrow> 'q Query_scheme \<Rightarrow> 'a Assistant_scheme \<Rightarrow> first_step \<times> 'a Assistant_scheme" where
  "generate_response_begin location_str preferences_str q a =
    (if query_type q = ''trip'' then
       (let a1 = a\<lparr>system := system_trip\<rparr>
        in case define_tools
                  [SearchInternet, ReadWebsite, Geocode, GetDistanceMatrix, OptimizeRoute] a1 of
             Inl e \<Rightarrow> (Raise e, a1)
           | Inr a2 \<Rightarrow> (Proceed, a2))
     else if query_type q \<in> set [''restaurant'', ''place''] then
       (let additional_info =
              (if query_type q = ''restaurant''
               then ''recommended menu options, expected price to eat there & overall restaurant rating''
               else ''recommended activities, expected costs & overall ratings'');
            action = (if query_type q = ''restaurant'' then ''eat'' else ''visit'');
            a1 = a\<lparr>system := system_template_format (query_type q) location_str
                                preferences_str additional_info action\<rparr>
        in case define_tools [SearchInternet, ReadWebsite, SearchForNearbyPlacesOfType] a1 of
             Inl e \<Rightarrow> (Raise e, a1)
           | Inr a2 \<Rightarrow> (Proceed, a2))
     else (YieldReturn (invalid_query_type (query_type q)), a))"

text \<open>
  The loop \<open>async for response_chunk in assistant(query.query): yield response_chunk\<close>,
  over the chunks that the assistant yields: each one is yielded on as it arrives.
\<close>

fun relay :: "string list \<Rightarrow> string list" where
  "relay [] = []"
| "relay (response_chunk # rest) = response_chunk # relay rest"

text \<open>
  The whole generator, run to its end with an assistant that finishes. \<open>run\<close> is
  \<open>Assistant.__call__\<close>, which is not among the sources, summed up: a parameter that,
  from the assistant as configured and the query text, gives all the chunks the
  assistant yields before it ends and the assistant object as the loop leaves it. The
  result is the stream (its chunks, or the exception that ended it before the first
  chunk) and the shared assistant afterwards. How the stream comes about chunk by chunk,
  also with an assistant that raises or never ends, is \<open>generate_response_anext\<close> below.
\<close>

definition generate_response ::
  "('a Assistant_scheme \<Rightarrow> string \<Rightarrow> string list \<times> 'a Assistant_scheme) \<Rightarrow>
   string \<Rightarrow> string \<Rightarrow> 'q Query_scheme \<Rightarrow> 'a Assistant_scheme \<Rightarrow>
   (error + string list) \<times> 'a Assistant_scheme" where
  "generate_response run location_str preferences_str q a =
    (case generate_response_begin location_str preferences_str q a of
       (YieldReturn msg, a') \<Rightarrow> (Inr [msg], a')
     | (Raise e, a') \<Rightarrow> (Inl e, a')
     | (Proceed, a') \<Rightarrow>
         (case run a' (query q) of
            (response_chunks, a'') \<Rightarrow> (Inr (relay response_chunks), a'')))"

text \<open>
  The same generator, one resumption at a time. Resuming an async iterator gives its next
  chunk together with the iterator to resume after it, or ends it
  (\<open>StopAsyncIteration\<close>), or raises.
\<close>

datatype ('s, 'x) resumed = Chunk string 's | EndOfStream | Exception 'x

text \<open>
  Where the generator object \<open>generate_response()\<close> stands: its body not yet entered,
  suspended at the \<open>yield\<close> of line 154, suspended at the \<open>yield response_chunk\<close> of line
  159 with the assistant's iterator at hand, or closed.
\<close>

datatype 'it generator = NotStarted | AtMessage | InLoop 'it | Closed

text \<open>
  One pass of the \<open>async for\<close>: the assistant's iterator is resumed once. Its chunk is
  yielded at once, its end ends the loop and with it the generator, its exception
  propagates. \<open>anext\<close> is the resumption of the assistant's iterator, which may read and
  change the shared assistant object: a parameter.
\<close>

definition relay_next ::
  "('it \<Rightarrow> 'a Assistant_scheme \<Rightarrow> ('it, 'x) resumed \<times> 'a Assistant_scheme) \<Rightarrow>
   'it \<Rightarrow> 'a Assistant_scheme \<Rightarrow> ('it generator, error + 'x) resumed \<times> 'a Assistant_scheme" where
  "relay_next anext it a =
    (case anext it a of
       (Chunk response_chunk it', a') \<Rightarrow> (Chunk response_chunk (InLoop it'), a')
     | (EndOfStream, a') \<Rightarrow> (EndOfStream, a')
     | (Exception x, a') \<Rightarrow> (Exception (Inr x), a'))"

text \<open>
  One resumption of the generator, from where it stands and with the shared assistant as
  it is at that moment. \<open>call\<close> is \<open>assistant(query.query)\<close>, which makes the assistant's
  iterator: a parameter. The first resumption runs lines 113 to 155 and, unless they
  yield the message or raise, enters the loop; a resumption at the message runs the
  \<open>return\<close>; a resumption in the loop makes the next pass.
\<close>

definition generate_response_anext ::
  "('a Assistant_scheme \<Rightarrow> string \<Rightarrow> 'it) \<Rightarrow>
   ('it \<Rightarrow> 'a Assistant_scheme \<Rightarrow> ('it, 'x) resumed \<times> 'a Assistant_scheme) \<Rightarrow>
   string \<Rightarrow> string \<Rightarrow> 'q Query_scheme \<Rightarrow> 'it generator \<Rightarrow> 'a Assistant_scheme \<Rightarrow>
   ('it generator, error + 'x) resumed \<times> 'a Assistant_scheme" where
  "generate_response_anext call anext location_str preferences_str q gen a =
    (case gen of
       NotStarted \<Rightarrow>
         (case generate_response_begin location_str preferences_str q a of
            (YieldReturn msg, a') \<Rightarrow> (Chunk msg AtMessage, a')
          | (Raise e, a') \<Rightarrow> (Exception (Inl e), a')
          | (Proceed, a') \<Rightarrow> relay_next anext (call a' (query q)) a')
     | AtMessage \<Rightarrow> (EndOfStream, a)
     | InLoop it \<Rightarrow> relay_next anext it a
     | Closed \<Rightarrow> (EndOfStream, a))"

text \<open>
  The consumer of a stream, as the server that sends a streaming response is: it resumes
  the iterator, takes the chunk, and resumes again. \<open>take_stream n\<close> asks for \<open>n\<close> chunks
  and gives those it got, how the stream stands after them (still open, ended, or
  ended by an exception) and the shared assistant. It resumes the iterator at most \<open>n\<close>
  times, so it is defined for an iterator that never ends as well.
\<close>

datatype 'x ending = Open | Ended | Raised 'x

fun take_stream ::
  "nat \<Rightarrow> ('s \<Rightarrow> 'a \<Rightarrow> ('s, 'x) resumed \<times> 'a) \<Rightarrow> 's \<Rightarrow> 'a \<Rightarrow> string list \<times> 'x ending \<times> 'a" where
  "take_stream 0 resume s a = ([], Open, a)"
| "take_stream (Suc n) resume s a =
    (case resume s a of
       (Chunk c s', a') \<Rightarrow>
         (case take_stream n resume s' a' of (cs, e, a'') \<Rightarrow> (c # cs, e, a''))
     | (EndOfStream, a') \<Rightarrow> ([], Ended, a')
     | (Exception x, a') \<Rightarrow> ([], Raised x, a'))"

text \<open>\<open>get_preferences\<close>, the dependency of the handler: a dictionary with one key.\<close>

definition get_preferences :: "'a process \<Rightarrow> (string \<rightharpoonup> string list)" where
  "get_preferences s = [''preferences'' \<mapsto> user_preferences s]"

text \<open>
  The handler. The stream is run to its end here, so the handler returns the response
  with the whole body and the process state afterwards. A \<open>KeyError\<close> from
  \<open>preferences["preferences"]\<close> would be raised before there is a response.
\<close>

definition query_assistant ::
  "('a Assistant_scheme \<Rightarrow> string \<Rightarrow> string list \<times> 'a Assistant_scheme) \<Rightarrow>
   'q Query_scheme \<Rightarrow> 'g ip_result_scheme \<Rightarrow> 'a process \<Rightarrow>
   (error + (error + string list) response) \<times> 'a process" where
  "query_assistant run q g s =
    (let preferences = get_preferences s in
     case preferences ''preferences'' of
       None \<Rightarrow> (Inl KeyError, s)
     | Some prefs \<Rightarrow>
         (let preferences_str = join '', '' prefs;
              location_str = py_str (city g) @ '', '' @ py_str (country g)
          in case generate_response run location_str preferences_str q (assistant s) of
               (stream, a') \<Rightarrow>
                 (Inr (StreamingResponse stream ''text/plain''), s\<lparr>assistant := a'\<rparr>)))"

section \<open>The other endpoints\<close>

text \<open>\<open>/location\<close>: the dictionary built from the lookup result \<open>g = geocoder.ip("me")\<close>.\<close>

definition get_location :: "'g ip_result_scheme \<Rightarrow> ip_result" where
  "get_location g = \<lparr>city = city g, country = country g, latlng = latlng g\<rparr>"

text \<open>\<open>/add_preference\<close>: appends to the module-level list, then returns the message.\<close>

definition add_preference ::
  "'u UserPreference_scheme \<Rightarrow> 'a process \<Rightarrow> (string \<rightharpoonup> string) \<times> 'a process" where
  "add_preference pref s =
    ([''message'' \<mapsto> ''Added preference: '' @ preference pref],
     s\<lparr>user_preferences := user_preferences s @ [preference pref]\<rparr>)"

text \<open>
  \<open>/tourguide\<close>. \<open>loc\<close> is the dictionary that the dependency \<open>get_location\<close> returned
  (the source calls it \<open>location\<close>). Subscripting \<open>location["latlng"]\<close> raises \<open>TypeError\<close>
  when it is \<open>None\<close> and \<open>IndexError\<close> when the list has no element at position 0 or 1;
  \<open>float(...)\<close> of a float is that float. \<open>run_everywhere_tour_guide\<close> is imported from
  \<open>swag.everywhere_tour_guide\<close>: a parameter.
\<close>

definition query_everywhere_tourguide ::
  "(string \<Rightarrow> string \<Rightarrow> string \<Rightarrow> pyfloat \<Rightarrow> pyfloat \<Rightarrow> 'b) \<Rightarrow>
   't TourGuideRequest_scheme \<Rightarrow> ip_result \<Rightarrow> error + 'b response" where
  "query_everywhere_tourguide run_everywhere_tour_guide request loc =
    (let request =
           (if location request = []
            then request\<lparr>location := py_str (city loc) @ '', '' @ py_str (country loc)\<rparr>
            else request)
     in case (if float_is_false (lat request) \<or> float_is_false (lon request)
              then (case latlng loc of
                      None \<Rightarrow> Inl TypeError
                    | Some (la # lo # _) \<Rightarrow> Inr (request\<lparr>lat := la, lon := lo\<rparr>)
                    | Some _ \<Rightarrow> Inl IndexError)
              else Inr request) of
          Inl e \<Rightarrow> Inl e
        | Inr request \<Rightarrow>
            Inr (StreamingResponse
                   (run_everywhere_tour_guide (base_image request) (masked_image request)
                      (location request) (lat request) (lon request))
                   ''text/event-stream''))"

text \<open>
  \<open>/sam\<close>. \<open>predict_mask\<close> is imported from \<open>swag.sam\<close>, and \<open>save_png\<close> stands for
  saving the image as PNG into a byte buffer: parameters.
\<close>

definition sam ::
  "(string \<Rightarrow> int list list \<Rightarrow> 'i) \<Rightarrow> ('i \<Rightarrow> 'c) \<Rightarrow> 's SamRequest_scheme \<Rightarrow> 'c response" where
  "sam predict_mask save_png request =
    (let image = predict_mask (image request) (clicks request);
         img_byte_arr = save_png image
     in Response img_byte_arr ''image/png'')"

section \<open>The process as a whole\<close>

text \<open>
  What the handlers call and do not define themselves, at the moment one request is
  served: the assistant's call, the tour guide, the IP lookup, the mask predictor.
\<close>

record ('a, 'b, 'i, 'c) collaborators =
  assistant_call :: "'a Assistant_scheme \<Rightarrow> string \<Rightarrow> string list \<times> 'a Assistant_scheme"
  tour_guide :: "string \<Rightarrow> string \<Rightarrow> string \<Rightarrow> pyfloat \<Rightarrow> pyfloat \<Rightarrow> 'b"
  ip_lookup :: ip_result
  mask :: "string \<Rightarrow> int list list \<Rightarrow> 'i"
  png :: "'i \<Rightarrow> 'c"

text \<open>The six routes that the decorators register on \<open>app\<close>, with their request bodies.\<close>

datatype request =
    GET_location
  | POST_add_preference UserPreference
  | GET_preferences
  | POST_tourguide TourGuideRequest
  | POST_query_assistant Query
  | POST_sam SamRequest

datatype ('b, 'c) reply =
    LocationReply ip_result
  | MessageReply "string \<rightharpoonup> string"
  | PreferencesReply "string \<rightharpoonup> string list"
  | TourGuideReply "error + 'b response"
  | AnswerReply "error + (error + string list) response"
  | MaskReply "'c response"

fun serve ::
  "('a, 'b, 'i, 'c) collaborators \<Rightarrow> request \<Rightarrow> 'a process \<Rightarrow> ('b, 'c) reply \<times> 'a process" where
  "serve env GET_location s = (LocationReply (get_location (ip_lookup env)), s)"
| "serve env (POST_add_preference pref) s =
     (case add_preference pref s of (msg, s') \<Rightarrow> (MessageReply msg, s'))"
| "serve env GET_preferences s = (PreferencesReply (get_preferences s), s)"
| "serve env (POST_tourguide req) s =
     (TourGuideReply (query_everywhere_tourguide (tour_guide env) req (get_location (ip_lookup env))), s)"
| "serve env (POST_query_assistant q) s =
     (case query_assistant (assistant_call env) q (ip_lookup env) s of (r, s') \<Rightarrow> (AnswerReply r, s'))"
| "serve env (POST_sam req) s = (MaskReply (sam (mask env) (png env) req), s)"

text \<open>Requests served one after the other, each with the collaborators of its moment.\<close>

fun serve_all ::
  "(('a, 'b, 'i, 'c) collaborators \<times> request) list \<Rightarrow> 'a process \<Rightarrow> 'a process" where
  "serve_all [] s = s"
| "serve_all ((env, r) # rest) s = serve_all rest (snd (serve env r s))"

text \<open>The preferences that a sequence of requests adds, in the order of the requests.\<close>

fun added :: "('e \<times> request) list \<Rightarrow> string list" where
  "added [] = []"
| "added ((env, POST_add_preference pref) # rest) = preference pref # added rest"
| "added (_ # rest) = added rest"

section \<open>The assistant loop\<close>

text \<open>
  The class \<open>Assistant\<close> (swag/assistant.py) is not among the sources. What follows is
  its loop as the specification describes it, in sections 3, 4.2 and 4.3.
\<close>

text \<open>Modelled from the spec: the roles of a Message (section 3).\<close>

datatype role = RoleUser | RoleAssistant | RoleTool

text \<open>Modelled from the spec: ToolCallRequest (section 3), a tool name and opaque
  structured arguments.\<close>

record ToolCallRequest =
  toolName :: string
  arguments :: string

text \<open>Modelled from the spec: the recoverable tool errors of sections 4.2 and 7.\<close>

datatype tool_error = UnknownToolError | ToolArgumentError | ToolExecutionError

text \<open>Modelled from the spec: ToolCallResult (section 3), the tool's name and its
  content or an error.\<close>

record ToolCallResult =
  ofTool :: string
  outcome :: "tool_error + string"

text \<open>Modelled from the spec: the content of a Message (section 3), free text or a
  tool-call or tool-result payload.\<close>

datatype payload = Text string | ToolCalls "ToolCallRequest list" | ToolResult ToolCallResult

text \<open>Modelled from the spec: Message (section 3).\<close>

record Message =
  role :: role
  content :: payload

text \<open>Modelled from the spec: ToolDefinition (section 3). The schema is the set of
  arguments it accepts; \<open>execute\<close> gives \<open>None\<close> when the execution fails (network
  failure, timeout, upstream error).\<close>

record ToolDefinition =
  name :: string
  description :: string
  parameterSchema :: "string \<Rightarrow> bool"
  execute :: "string \<Rightarrow> string option"

text \<open>Modelled from the spec: Conversation (section 3), the ordered messages with the
  active system prompt and the active tool set.\<close>

record Conversation =
  systemPrompt :: string
  activeTools :: "ToolDefinition list"
  messages :: "Message list"

text \<open>Modelled from the spec: the conditions that end the loop in \<open>Failed\<close> (sections
  4.3 and 7).\<close>

datatype failure = LoopLimitExceeded | ModelStreamError

text \<open>Modelled from the spec: StreamEvent (section 3), with the terminal error event of
  rule 6 of section 4.3.\<close>

datatype StreamEvent =
    TextEvent string
  | ToolStarted string
  | ToolCompleted string
  | Completion
  | Failure failure

text \<open>Modelled from the spec: the LLM service boundary (section 6). One streamed
  response is an ordered, finite sequence of text and tool-call fragments, ended by a
  completion or an error marker.\<close>

datatype fragment = TextFragment string | ToolCallFragment ToolCallRequest

datatype marker = Completed | Errored

type_synonym llm = "Conversation \<Rightarrow> fragment list \<times> marker"

text \<open>Modelled from the spec: the terminal states of the loop (section 4.3).\<close>

datatype terminal = Done | Failed failure

text \<open>Modelled from the spec: what one run of the loop leaves behind, namely its terminal
  state, the Conversation, the number of rounds (requests sent to the model) and the
  StreamEvents in the order produced.\<close>

record LoopResult =
  final :: terminal
  transcript :: Conversation
  rounds :: nat
  emitted :: "StreamEvent list"

text \<open>Modelled from the spec: the Tool Executor (section 4.2). An unknown name, arguments
  that do not fit the schema and a failed execution each give an error result.\<close>

definition tool_executor :: "ToolDefinition list \<Rightarrow> ToolCallRequest \<Rightarrow> ToolCallResult" where
  "tool_executor registry req =
    (case find (\<lambda>t. name t = toolName req) registry of
       None \<Rightarrow> \<lparr>ofTool = toolName req, outcome = Inl UnknownToolError\<rparr>
     | Some t \<Rightarrow>
         if \<not> parameterSchema t (arguments req)
         then \<lparr>ofTool = toolName req, outcome = Inl ToolArgumentError\<rparr>
         else (case execute t (arguments req) of
                 None \<Rightarrow> \<lparr>ofTool = toolName req, outcome = Inl ToolExecutionError\<rparr>
               | Some c \<Rightarrow> \<lparr>ofTool = toolName req, outcome = Inr c\<rparr>))"

text \<open>Modelled from the spec: rule 2 of section 4.3, the text fragments received before
  any tool call; they are emitted at once, and text after a tool call is not.\<close>

fun text_before_tool_call :: "fragment list \<Rightarrow> string list" where
  "text_before_tool_call [] = []"
| "text_before_tool_call (TextFragment t # fs) = t # text_before_tool_call fs"
| "text_before_tool_call (ToolCallFragment _ # fs) = []"

text \<open>Modelled from the spec: rule 3 of section 4.3, the ToolCallRequests of a response in
  the order the model issued them.\<close>

fun tool_call_requests :: "fragment list \<Rightarrow> ToolCallRequest list" where
  "tool_call_requests [] = []"
| "tool_call_requests (TextFragment _ # fs) = tool_call_requests fs"
| "tool_call_requests (ToolCallFragment req # fs) = req # tool_call_requests fs"

text \<open>Modelled from the spec: rule 3 of section 4.3, the concurrent execution of the tool
  calls of one turn. \<open>order\<close> lists the positions of the requests in the order in which
  their executions complete; each completion carries the position of the request it
  answers.\<close>

definition completions ::
  "ToolDefinition list \<Rightarrow> ToolCallRequest list \<Rightarrow> nat list \<Rightarrow> (nat \<times> ToolCallResult) list" where
  "completions registry reqs order =
    map (\<lambda>i. (i, tool_executor registry (reqs ! i))) (filter (\<lambda>i. i < length reqs) order)"

text \<open>Modelled from the spec: rule 3 of section 4.3 and section 5, the results put in
  the order of their requests, whatever the order of completion.\<close>

definition results_in_request_order :: "(nat \<times> ToolCallResult) list \<Rightarrow> ToolCallResult list" where
  "results_in_request_order cs = map snd (sort_key fst cs)"

text \<open>Modelled from the spec: the messages that one turn with tool calls adds to the
  Conversation, namely the assistant's turn (its text, if any, and its tool calls) and
  then one \<open>tool\<close> message per result (section 3; rules 3 and 4 of section 4.3).\<close>

definition turn_messages :: "string list \<Rightarrow> ToolCallRequest list \<Rightarrow> ToolCallResult list \<Rightarrow> Message list" where
  "turn_messages texts reqs results =
    (if texts = [] then [] else [\<lparr>role = RoleAssistant, content = Text (concat texts)\<rparr>]) @
    (if reqs = [] then [] else [\<lparr>role = RoleAssistant, content = ToolCalls reqs\<rparr>]) @
    map (\<lambda>r. \<lparr>role = RoleTool, content = ToolResult r\<rparr>) results"

text \<open>Modelled from the spec: rules 3 and 4 of section 4.3, the Conversation extended by
  one turn whose response has the fragments \<open>fs\<close> and whose tool executions complete in
  the order \<open>order\<close>.\<close>

definition extend_conversation :: "Conversation \<Rightarrow> fragment list \<Rightarrow> nat list \<Rightarrow> Conversation" where
  "extend_conversation conv fs order =
    conv\<lparr>messages := messages conv @
      turn_messages (text_before_tool_call fs) (tool_call_requests fs)
        (results_in_request_order (completions (activeTools conv) (tool_call_requests fs) order))\<rparr>"

text \<open>Modelled from the spec: the StreamEvents of one turn with tool calls, namely the text
  fragments, a started marker per request in request order, and a completed marker per
  execution in completion order.\<close>

definition turn_events :: "Conversation \<Rightarrow> fragment list \<Rightarrow> nat list \<Rightarrow> StreamEvent list" where
  "turn_events conv fs order =
    map TextEvent (text_before_tool_call fs) @
    map (\<lambda>req. ToolStarted (toolName req)) (tool_call_requests fs) @
    map (\<lambda>c. ToolCompleted (ofTool (snd c)))
      (completions (activeTools conv) (tool_call_requests fs) order)"

text \<open>Modelled from the spec: the Assistant Loop (section 4.3). \<open>max_rounds\<close> is the
  configured maximum round count, \<open>model\<close> the LLM service, \<open>sched\<close> the completion order
  of the tool executions of each round, \<open>n\<close> the number of rounds made so far. Awaiting
  the model with the maximum reached is \<open>LoopLimitExceeded\<close> (rule 6); otherwise the
  Conversation is sent (rule 1); an error marker is \<open>ModelStreamError\<close> (rule 6); a
  response without tool calls ends the loop in \<open>Done\<close> (rule 5); one with tool calls
  extends the Conversation by the results and loops (rules 3 and 4).\<close>

function assistant_loop ::
  "nat \<Rightarrow> llm \<Rightarrow> (nat \<Rightarrow> ToolCallRequest list \<Rightarrow> nat list) \<Rightarrow> Conversation \<Rightarrow> nat \<Rightarrow> LoopResult" where
  "assistant_loop max_rounds model sched conv n =
    (if max_rounds \<le> n then
       \<lparr>final = Failed LoopLimitExceeded, transcript = conv, rounds = n,
        emitted = [Failure LoopLimitExceeded]\<rparr>
     else
       (case model conv of
          (fs, Errored) \<Rightarrow>
            \<lparr>final = Failed ModelStreamError, transcript = conv, rounds = Suc n,
             emitted = map TextEvent (text_before_tool_call fs) @ [Failure ModelStreamError]\<rparr>
        | (fs, Completed) \<Rightarrow>
            if tool_call_requests fs = [] then
              \<lparr>final = Done,
               transcript = conv\<lparr>messages := messages conv @
                              turn_messages (text_before_tool_call fs) [] []\<rparr>,
               rounds = Suc n,
               emitted = map TextEvent (text_before_tool_call fs) @ [Completion]\<rparr>
            else
              (let order = sched n (tool_call_requests fs);
                   rest = assistant_loop max_rounds model sched
                            (extend_conversation conv fs order) (Suc n)
               in rest\<lparr>emitted := turn_events conv fs order @ emitted rest\<rparr>)))"
  by pat_completeness auto
termination
  by (relation "measure (\<lambda>(max_rounds, model, sched, conv, n). max_rounds - n)") auto

declare assistant_loop.simps [simp del]

text \<open>Modelled from the spec: one query answered by the loop. The Conversation is created
  at the start of the query, with the user's message.\<close>

definition answer_query ::
  "nat \<Rightarrow> llm \<Rightarrow> (nat \<Rightarrow> ToolCallRequest list \<Rightarrow> nat list) \<Rightarrow>
   string \<Rightarrow> ToolDefinition list \<Rightarrow> string \<Rightarrow> LoopResult" where
  "answer_query max_rounds model sched prompt registry text =
    assistant_loop max_rounds model sched
      \<lparr>systemPrompt = prompt, activeTools = registry,
       messages = [\<lparr>role = RoleUser, content = Text text\<rparr>]\<rparr> 0"

section \<open>Properties of /query_assistant\<close>

lemma relay_id: "relay cs = cs"
  by (induction cs) simp_all

lemma begin_invalid:
  assumes "query_type q \<notin> {''trip'', ''restaurant'', ''place''}"
  shows "generate_response_begin l p q a = (YieldReturn (invalid_query_type (query_type q)), a)"
  using assms by (simp add: generate_response_begin_def)

lemma begin_trip:
  assumes "query_type q = ''trip''"
  shows "generate_response_begin l p q a =
    (Proceed, a\<lparr>system := system_trip,
                 tools := [SearchInternet, ReadWebsite, Geocode, GetDistanceMatrix, OptimizeRoute]\<rparr>)"
  using assms by (simp add: generate_response_begin_def define_tools_def)

lemma begin_restaurant_place:
  assumes "query_type q \<in> {''restaurant'', ''place''}"
  shows "generate_response_begin l p q a =
    (Proceed,
     a\<lparr>system := system_template_format (query_type q) l p
          (if query_type q = ''restaurant''
           then ''recommended menu options, expected price to eat there & overall restaurant rating''
           else ''recommended activities, expected costs & overall ratings'')
          (if query_type q = ''restaurant'' then ''eat'' else ''visit''),
        tools := [SearchInternet, ReadWebsite, SearchForNearbyPlacesOfType]\<rparr>)"
proof -
  have "query_type q \<noteq> ''trip''" using assms by auto
  then show ?thesis
    using assms by (simp add: generate_response_begin_def define_tools_def)
qed

lemma generate_response_proceed:
  assumes "generate_response_begin l p q a = (Proceed, a')"
  shows "generate_response run l p q a = (Inr (fst (run a' (query q))), snd (run a' (query q)))"
  using assms by (simp add: generate_response_def relay_id split: prod.splits)

lemma generate_response_invalid:
  assumes "query_type q \<notin> {''trip'', ''restaurant'', ''place''}"
  shows "generate_response run l p q a = (Inr [invalid_query_type (query_type q)], a)"
  by (simp add: generate_response_def begin_invalid [OF assms])

lemma get_preferences_lookup: "get_preferences s ''preferences'' = Some (user_preferences s)"
  by (simp add: get_preferences_def)

lemma query_assistant_unfold:
  "query_assistant run q g s =
    (Inr (StreamingResponse
            (fst (generate_response run (py_str (city g) @ '', '' @ py_str (country g))
                    (join '', '' (user_preferences s)) q (assistant s)))
            ''text/plain''),
     s\<lparr>assistant :=
         snd (generate_response run (py_str (city g) @ '', '' @ py_str (country g))
                (join '', '' (user_preferences s)) q (assistant s))\<rparr>)"
  by (simp add: query_assistant_def get_preferences_lookup split: prod.splits)

text \<open>
  C1. A request whose \<open>query_type\<close> is none of 'trip', 'restaurant' and 'place' gets a
  stream of exactly one chunk, the invalid-query-type message, after which the generator
  returns. The first step of the generator ends in that yield and never reaches the
  \<open>async for\<close>; the result holds for every \<open>run\<close>, that is, whatever the assistant's
  call would do: the assistant loop is not started, no tool is defined or executed,
  and the shared assistant object is left as it was.
\<close>

theorem invalid_query_type_single_message:
  assumes "query_type q \<notin> {''trip'', ''restaurant'', ''place''}"
  shows "generate_response_begin location_str preferences_str q a
           = (YieldReturn (invalid_query_type (query_type q)), a)
       \<and> generate_response run location_str preferences_str q a
           = (Inr [invalid_query_type (query_type q)], a)"
  using assms by (simp add: begin_invalid generate_response_invalid)

theorem invalid_query_type_single_message_witness:
  "query_type \<lparr>query_type = ''hotel'', query = ''a room''\<rparr> \<notin> {''trip'', ''restaurant'', ''place''}
   \<and> generate_response (\<lambda>a t. ([''chunk'', t], a\<lparr>tools := []\<rparr>)) ''Seattle, US'' ''''
         \<lparr>query_type = ''hotel'', query = ''a room''\<rparr> \<lparr>system = ''old'', tools = [Geocode]\<rparr>
       = (Inr [''Invalid query type: hotel. Supported types are 'restaurant', 'place', and 'trip'.''],
          \<lparr>system = ''old'', tools = [Geocode]\<rparr>)"
  using invalid_query_type_single_message
    [of "\<lparr>query_type = ''hotel'', query = ''a room''\<rparr>" "''Seattle, US''" "''''"
        "\<lparr>system = ''old'', tools = [Geocode]\<rparr>" "\<lambda>a t. ([''chunk'', t], a\<lparr>tools := []\<rparr>)"]
  by (simp add: invalid_query_type_def)

text \<open>
  C3. The generator sets the system prompt and the tool set in its first step, before the
  loop: for \<open>query_type\<close> 'trip' the assistant that the loop is started on has the trip
  prompt and exactly SearchInternet, ReadWebsite, Geocode, GetDistanceMatrix,
  OptimizeRoute; for 'restaurant' and 'place' it has the formatted template and exactly
  SearchInternet, ReadWebsite, SearchForNearbyPlacesOfType. After that first step the
  generator only relays what the assistant's call yields.
\<close>

theorem query_type_selects_tools:
  "(query_type q = ''trip'' \<longrightarrow>
      (\<exists>a'. generate_response_begin l p q a = (Proceed, a')
          \<and> system a' = system_trip
          \<and> tools a' = [SearchInternet, ReadWebsite, Geocode, GetDistanceMatrix, OptimizeRoute]
          \<and> generate_response run l p q a
              = (Inr (fst (run a' (query q))), snd (run a' (query q)))))
   \<and> (query_type q \<in> {''restaurant'', ''place''} \<longrightarrow>
      (\<exists>a'. generate_response_begin l p q a = (Proceed, a')
          \<and> system a' = system_template_format (query_type q) l p
               (if query_type q = ''restaurant''
                then ''recommended menu options, expected price to eat there & overall restaurant rating''
                else ''recommended activities, expected costs & overall ratings'')
               (if query_type q = ''restaurant'' then ''eat'' else ''visit'')
          \<and> tools a' = [SearchInternet, ReadWebsite, SearchForNearbyPlacesOfType]
          \<and> generate_response run l p q a
              = (Inr (fst (run a' (query q))), snd (run a' (query q)))))"
proof (intro conjI impI)
  assume t: "query_type q = ''trip''"
  show "\<exists>a'. generate_response_begin l p q a = (Proceed, a')
          \<and> system a' = system_trip
          \<and> tools a' = [SearchInternet, ReadWebsite, Geocode, GetDistanceMatrix, OptimizeRoute]
          \<and> generate_response run l p q a
              = (Inr (fst (run a' (query q))), snd (run a' (query q)))"
    using begin_trip [OF t, of l p a]
      generate_response_proceed [OF begin_trip [OF t, of l p a], of run]
    by simp
next
  assume r: "query_type q \<in> {''restaurant'', ''place''}"
  show "\<exists>a'. generate_response_begin l p q a = (Proceed, a')
          \<and> system a' = system_template_format (query_type q) l p
               (if query_type q = ''restaurant''
                then ''recommended menu options, expected price to eat there & overall restaurant rating''
                else ''recommended activities, expected costs & overall ratings'')
               (if query_type q = ''restaurant'' then ''eat'' else ''visit'')
          \<and> tools a' = [SearchInternet, ReadWebsite, SearchForNearbyPlacesOfType]
          \<and> generate_response run l p q a
              = (Inr (fst (run a' (query q))), snd (run a' (query q)))"
    using begin_restaurant_place [OF r, of l p a]
      generate_response_proceed [OF begin_restaurant_place [OF r, of l p a], of run]
    by simp
qed

theorem query_type_selects_tools_witness:
  "query_type \<lparr>query_type = ''trip'', query = ''Seattle to Portland''\<rparr> = ''trip''
   \<and> generate_response_begin ''Seattle, US'' ''vegan''
         \<lparr>query_type = ''trip'', query = ''Seattle to Portland''\<rparr> \<lparr>system = '''', tools = []\<rparr>
       = (Proceed, \<lparr>system = system_trip,
            tools = [SearchInternet, ReadWebsite, Geocode, GetDistanceMatrix, OptimizeRoute]\<rparr>)
   \<and> query_type \<lparr>query_type = ''place'', query = ''a museum''\<rparr> \<in> {''restaurant'', ''place''}
   \<and> tools (snd (generate_response_begin ''Seattle, US'' ''vegan''
         \<lparr>query_type = ''place'', query = ''a museum''\<rparr> \<lparr>system = '''', tools = []\<rparr>))
       = [SearchInternet, ReadWebsite, SearchForNearbyPlacesOfType]"
  using query_type_selects_tools
      [of "\<lparr>query_type = ''trip'', query = ''Seattle to Portland''\<rparr>" "''Seattle, US''" "''vegan''"
          "\<lparr>system = '''', tools = []\<rparr>" "\<lambda>a t. ([t], a)"]
    query_type_selects_tools
      [of "\<lparr>query_type = ''place'', query = ''a museum''\<rparr>" "''Seattle, US''" "''vegan''"
          "\<lparr>system = '''', tools = []\<rparr>" "\<lambda>a t. ([t], a)"]
  by auto

lemma query_assistant_finished_body:
  "\<exists>r chunks.
      fst (query_assistant run q g s) = Inr r
    \<and> status_code r = 200
    \<and> media_type r = ''text/plain''
    \<and> body r = Inr chunks
    \<and> (query_type q \<in> {''trip'', ''restaurant'', ''place''} \<longrightarrow>
         (\<exists>a'. generate_response_begin (py_str (city g) @ '', '' @ py_str (country g))
                  (join '', '' (user_preferences s)) q (assistant s) = (Proceed, a')
             \<and> chunks = fst (run a' (query q))))"
proof -
  let ?l = "py_str (city g) @ '', '' @ py_str (country g)"
  let ?p = "join '', '' (user_preferences s)"
  consider (trip) "query_type q = ''trip''"
    | (other) "query_type q \<in> {''restaurant'', ''place''}"
    | (invalid) "query_type q \<notin> {''trip'', ''restaurant'', ''place''}"
    by auto
  then show ?thesis
  proof cases
    case trip
    show ?thesis
      using generate_response_proceed [OF begin_trip [OF trip, of ?l ?p "assistant s"], of run]
        begin_trip [OF trip, of ?l ?p "assistant s"]
      by (simp add: query_assistant_unfold StreamingResponse_def)
  next
    case other
    show ?thesis
      using generate_response_proceed
          [OF begin_restaurant_place [OF other, of ?l ?p "assistant s"], of run]
        begin_restaurant_place [OF other, of ?l ?p "assistant s"]
      by (simp add: query_assistant_unfold StreamingResponse_def)
  next
    case invalid
    show ?thesis
      using invalid
      by (simp add: query_assistant_unfold StreamingResponse_def
            generate_response_invalid [OF invalid])
  qed
qed

lemma begin_supported:
  assumes "query_type q \<in> {''trip'', ''restaurant'', ''place''}"
  shows "\<exists>a'. generate_response_begin l p q a = (Proceed, a')"
proof -
  from assms consider (trip) "query_type q = ''trip''"
    | (other) "query_type q \<in> {''restaurant'', ''place''}"
    by auto
  then show ?thesis
  proof cases
    case trip
    then show ?thesis by (simp add: begin_trip)
  next
    case other
    then show ?thesis by (simp add: begin_restaurant_place)
  qed
qed

lemma take_stream_in_loop:
  "take_stream n (generate_response_anext call anext l p q) (InLoop it) a =
     (case take_stream n anext it a of (cs, e, a') \<Rightarrow> (cs, map_ending Inr e, a'))"
proof (induction n arbitrary: it a)
  case 0
  show ?case by simp
next
  case (Suc n)
  obtain out a1 where r: "anext it a = (out, a1)" by (cases "anext it a")
  show ?case
  proof (cases out)
    case (Chunk c it')
    with r Suc.IH [of it' a1] show ?thesis
      by (simp add: generate_response_anext_def relay_next_def split: prod.splits)
  next
    case EndOfStream
    with r show ?thesis
      by (simp add: generate_response_anext_def relay_next_def)
  next
    case (Exception x)
    with r show ?thesis
      by (simp add: generate_response_anext_def relay_next_def)
  qed
qed

lemma take_stream_started:
  assumes "generate_response_begin l p q a = (Proceed, a')"
  shows "take_stream (Suc n) (generate_response_anext call anext l p q) NotStarted a =
     (case take_stream (Suc n) anext (call a' (query q)) a' of
        (cs, e, a'') \<Rightarrow> (cs, map_ending Inr e, a''))"
proof -
  obtain out a1 where r: "anext (call a' (query q)) a' = (out, a1)"
    by (cases "anext (call a' (query q)) a'")
  show ?thesis
  proof (cases out)
    case (Chunk c it')
    with r assms take_stream_in_loop [of n call anext l p q it' a1] show ?thesis
      by (simp add: generate_response_anext_def relay_next_def split: prod.splits)
  next
    case EndOfStream
    with r assms show ?thesis
      by (simp add: generate_response_anext_def relay_next_def)
  next
    case (Exception x)
    with r assms show ?thesis
      by (simp add: generate_response_anext_def relay_next_def)
  qed
qed

lemma take_stream_invalid:
  assumes "query_type q \<notin> {''trip'', ''restaurant'', ''place''}"
  shows "take_stream (Suc (Suc n)) (generate_response_anext call anext l p q) NotStarted a
           = ([invalid_query_type (query_type q)], Ended, a)"
  by (simp add: generate_response_anext_def begin_invalid [OF assms])

text \<open>
  When the assistant's iterator ends by itself after the chunks \<open>cs\<close>, the stream taken
  from the generator is those chunks and then its end, and that is the stream which
  \<open>generate_response\<close> gives for a call \<open>run\<close> that sums the iterator up.
\<close>

lemma generate_response_is_drained_stream:
  assumes "generate_response_begin l p q a = (Proceed, a')"
    and "take_stream n anext (call a' (query q)) a' = (cs, Ended, a'')"
    and "run a' (query q) = (cs, a'')"
  shows "take_stream n (generate_response_anext call anext l p q) NotStarted a = (cs, Ended, a'')"
    and "generate_response run l p q a = (Inr cs, a'')"
proof -
  from assms(2) obtain m where n: "n = Suc m" by (cases n) auto
  show "take_stream n (generate_response_anext call anext l p q) NotStarted a = (cs, Ended, a'')"
    using take_stream_started [OF assms(1), of m call anext] assms(2) by (simp add: n)
  show "generate_response run l p q a = (Inr cs, a'')"
    using generate_response_proceed [OF assms(1), of run] assms(3) by simp
qed

text \<open>
  C6. Every request to \<open>/query_assistant\<close> is answered by a streaming response with status
  200 and media type \<open>text/plain\<close>, and its body is produced chunk by chunk as the assistant
  produces it. For a supported query type, asking the response for its first \<open>n + 1\<close>
  chunks resumes the assistant's iterator just as asking the iterator itself for its
  first \<open>n + 1\<close> chunks does, and gives the same chunks in the same order, the same state
  of the stream after them (open, ended, or ended by the assistant's exception) and the
  same assistant object: every chunk is passed on by the resumption that got it, before
  the iterator is resumed again, also when the iterator never ends. For an unsupported
  type the stream is the one message and then its end. Run to its end with an assistant
  that finishes, the body is the list of the assistant's chunks.
\<close>

theorem query_assistant_streams_plain_text:
  "(\<exists>r chunks.
      fst (query_assistant run q g s) = Inr r
    \<and> status_code r = 200
    \<and> media_type r = ''text/plain''
    \<and> body r = Inr chunks
    \<and> (query_type q \<in> {''trip'', ''restaurant'', ''place''} \<longrightarrow>
         (\<exists>a'. generate_response_begin (py_str (city g) @ '', '' @ py_str (country g))
                  (join '', '' (user_preferences s)) q (assistant s) = (Proceed, a')
             \<and> chunks = fst (run a' (query q)))))
   \<and> (query_type q \<in> {''trip'', ''restaurant'', ''place''} \<longrightarrow>
        (\<exists>a'. generate_response_begin l p q a = (Proceed, a')
           \<and> (\<forall>n. take_stream (Suc n) (generate_response_anext call anext l p q) NotStarted a
                  = (case take_stream (Suc n) anext (call a' (query q)) a' of
                       (cs, e, a'') \<Rightarrow> (cs, map_ending Inr e, a'')))))
   \<and> (\<forall>n it. take_stream n (generate_response_anext call anext l p q) (InLoop it) a
              = (case take_stream n anext it a of (cs, e, a'') \<Rightarrow> (cs, map_ending Inr e, a'')))
   \<and> (query_type q \<notin> {''trip'', ''restaurant'', ''place''} \<longrightarrow>
        (\<forall>n. take_stream (Suc (Suc n)) (generate_response_anext call anext l p q) NotStarted a
              = ([invalid_query_type (query_type q)], Ended, a)))"
proof (intro conjI impI allI)
  show "\<exists>r chunks.
      fst (query_assistant run q g s) = Inr r
    \<and> status_code r = 200
    \<and> media_type r = ''text/plain''
    \<and> body r = Inr chunks
    \<and> (query_type q \<in> {''trip'', ''restaurant'', ''place''} \<longrightarrow>
         (\<exists>a'. generate_response_begin (py_str (city g) @ '', '' @ py_str (country g))
                  (join '', '' (user_preferences s)) q (assistant s) = (Proceed, a')
             \<and> chunks = fst (run a' (query q))))"
    by (rule query_assistant_finished_body)
next
  assume "query_type q \<in> {''trip'', ''restaurant'', ''place''}"
  then obtain a' where b: "generate_response_begin l p q a = (Proceed, a')"
    using begin_supported by blast
  have "\<forall>n. take_stream (Suc n) (generate_response_anext call anext l p q) NotStarted a
                  = (case take_stream (Suc n) anext (call a' (query q)) a' of
                       (cs, e, a'') \<Rightarrow> (cs, map_ending Inr e, a''))"
    using take_stream_started [OF b] by blast
  with b show "\<exists>a'. generate_response_begin l p q a = (Proceed, a')
           \<and> (\<forall>n. take_stream (Suc n) (generate_response_anext call anext l p q) NotStarted a
                  = (case take_stream (Suc n) anext (call a' (query q)) a' of
                       (cs, e, a'') \<Rightarrow> (cs, map_ending Inr e, a'')))"
    by blast
next
  fix n it
  show "take_stream n (generate_response_anext call anext l p q) (InLoop it) a
              = (case take_stream n anext it a of (cs, e, a'') \<Rightarrow> (cs, map_ending Inr e, a''))"
    by (rule take_stream_in_loop)
next
  fix n
  assume "query_type q \<notin> {''trip'', ''restaurant'', ''place''}"
  then show "take_stream (Suc (Suc n)) (generate_response_anext call anext l p q) NotStarted a
              = ([invalid_query_type (query_type q)], Ended, a)"
    by (rule take_stream_invalid)
qed

text \<open>
  The witness has an assistant that never ends: three chunks asked of the response are
  three chunks got, and the stream is still open.
\<close>

theorem query_assistant_streams_plain_text_witness:
  "query_type \<lparr>query_type = ''restaurant'', query = ''Find me Italian food''\<rparr>
     \<in> {''trip'', ''restaurant'', ''place''}
   \<and> fst (query_assistant (\<lambda>a t. ([''Here '', ''are '', ''five''], a))
         \<lparr>query_type = ''restaurant'', query = ''Find me Italian food''\<rparr>
         \<lparr>city = Some ''Seattle'', country = Some ''US'', latlng = Some [Finite 47, Finite (-122)]\<rparr>
         \<lparr>assistant = \<lparr>system = '''', tools = []\<rparr>, user_preferences = []\<rparr>)
       = Inr \<lparr>status_code = 200, media_type = ''text/plain'',
              body = Inr [''Here '', ''are '', ''five'']\<rparr>
   \<and> fst (take_stream (Suc (Suc (Suc 0)))
           (generate_response_anext (\<lambda>a t. 0)
              (\<lambda>k a. (Chunk (if even k then ''tick '' else ''tock '') (Suc k) :: (nat, unit) resumed, a))
              ''Seattle, US'' []
              \<lparr>query_type = ''restaurant'', query = ''Find me Italian food''\<rparr>)
           NotStarted \<lparr>system = [], tools = []\<rparr>)
       = [''tick '', ''tock '', ''tick '']
   \<and> fst (snd (take_stream (Suc (Suc (Suc 0)))
           (generate_response_anext (\<lambda>a t. 0)
              (\<lambda>k a. (Chunk (if even k then ''tick '' else ''tock '') (Suc k) :: (nat, unit) resumed, a))
              ''Seattle, US'' []
              \<lparr>query_type = ''restaurant'', query = ''Find me Italian food''\<rparr>)
           NotStarted \<lparr>system = [], tools = []\<rparr>))
       = Open
   \<and> query_type \<lparr>query_type = ''hotel'', query = ''a room''\<rparr> \<notin> {''trip'', ''restaurant'', ''place''}
   \<and> take_stream (Suc (Suc 0))
           (generate_response_anext (\<lambda>a t. 0)
              (\<lambda>k a. (Chunk (if even k then ''tick '' else ''tock '') (Suc k) :: (nat, unit) resumed, a))
              ''Seattle, US'' []
              \<lparr>query_type = ''hotel'', query = ''a room''\<rparr>)
           NotStarted \<lparr>system = [], tools = []\<rparr>
       = ([''Invalid query type: hotel. Supported types are 'restaurant', 'place', and 'trip'.''],
          Ended, \<lparr>system = [], tools = []\<rparr>)"
  using query_assistant_streams_plain_text
      [of "\<lambda>a t. ([''Here '', ''are '', ''five''], a)"
          "\<lparr>query_type = ''restaurant'', query = ''Find me Italian food''\<rparr>"
          "\<lparr>city = Some ''Seattle'', country = Some ''US'', latlng = Some [Finite 47, Finite (-122)]\<rparr>"
          "\<lparr>assistant = \<lparr>system = '''', tools = []\<rparr>, user_preferences = []\<rparr>"
          "''Seattle, US''" "[]" "\<lparr>system = [], tools = []\<rparr>"
          "\<lambda>a t. 0"
          "\<lambda>k a. (Chunk (if even k then ''tick '' else ''tock '') (Suc k) :: (nat, unit) resumed, a)"]
    query_assistant_streams_plain_text
      [of "\<lambda>a t. ([''Here '', ''are '', ''five''], a)"
          "\<lparr>query_type = ''hotel'', query = ''a room''\<rparr>"
          "\<lparr>city = Some ''Seattle'', country = Some ''US'', latlng = Some [Finite 47, Finite (-122)]\<rparr>"
          "\<lparr>assistant = \<lparr>system = '''', tools = []\<rparr>, user_preferences = []\<rparr>"
          "''Seattle, US''" "[]" "\<lparr>system = [], tools = []\<rparr>"
          "\<lambda>a t. 0"
          "\<lambda>k a. (Chunk (if even k then ''tick '' else ''tock '') (Suc k) :: (nat, unit) resumed, a)"]
  by (auto simp add: query_assistant_unfold StreamingResponse_def invalid_query_type_def)

text \<open>
  C9. A request with an unsupported \<open>query_type\<close> is still answered by a streaming response
  with status 200 and media type \<open>text/plain\<close>; its body is the one invalid-query-type
  message, and the process state is unchanged. The error is in the body, not in the
  status.
\<close>

theorem unsupported_query_type_response:
  assumes "query_type q \<notin> {''trip'', ''restaurant'', ''place''}"
  shows "query_assistant run q g s =
    (Inr \<lparr>status_code = 200, media_type = ''text/plain'',
          body = Inr [invalid_query_type (query_type q)]\<rparr>, s)"
  by (simp add: query_assistant_unfold StreamingResponse_def generate_response_invalid [OF assms])

theorem unsupported_query_type_response_witness:
  "query_type \<lparr>query_type = ''Trip'', query = ''Rome''\<rparr> \<notin> {''trip'', ''restaurant'', ''place''}
   \<and> query_assistant (\<lambda>a t. ([t], a))
         \<lparr>query_type = ''Trip'', query = ''Rome''\<rparr>
         \<lparr>city = None, country = None, latlng = None\<rparr>
         \<lparr>assistant = \<lparr>system = ''s'', tools = [Geocode]\<rparr>, user_preferences = [''quiet'']\<rparr>
       = (Inr \<lparr>status_code = 200, media_type = ''text/plain'',
              body = Inr [''Invalid query type: Trip. Supported types are 'restaurant', 'place', and 'trip'.'']\<rparr>,
          \<lparr>assistant = \<lparr>system = ''s'', tools = [Geocode]\<rparr>, user_preferences = [''quiet'']\<rparr>)"
  using unsupported_query_type_response
      [of "\<lparr>query_type = ''Trip'', query = ''Rome''\<rparr>" "\<lambda>a t. ([t], a)"
          "\<lparr>city = None, country = None, latlng = None\<rparr>"
          "\<lparr>assistant = \<lparr>system = ''s'', tools = [Geocode]\<rparr>, user_preferences = [''quiet'']\<rparr>"]
  by (simp add: invalid_query_type_def)

text \<open>
  C2 (as stated, refuted). The claim gives each query a system prompt and an active tool
  set of its own. In main.py both are attributes of the one module-level \<open>assistant\<close>,
  and the first step of every response generator writes them. Here a 'trip' query has
  started (its loop is awaiting the model) when a 'restaurant' query starts: the second
  generator's first step, run on the object as the first left it, replaces the trip
  query's five tools and its prompt by the restaurant query's.
\<close>

theorem shared_assistant_counterexample:
  "tools (snd (generate_response_begin ''Seattle, US'' ''''
          \<lparr>query_type = ''trip'', query = ''Seattle to Portland''\<rparr>
          \<lparr>system = '''', tools = []\<rparr>))
     = [SearchInternet, ReadWebsite, Geocode, GetDistanceMatrix, OptimizeRoute]
   \<and> tools (snd (generate_response_begin ''Seattle, US'' ''''
          \<lparr>query_type = ''restaurant'', query = ''Find me Italian food''\<rparr>
          (snd (generate_response_begin ''Seattle, US'' ''''
                  \<lparr>query_type = ''trip'', query = ''Seattle to Portland''\<rparr>
                  \<lparr>system = '''', tools = []\<rparr>))))
     = [SearchInternet, ReadWebsite, SearchForNearbyPlacesOfType]
   \<and> tools (snd (generate_response_begin ''Seattle, US'' ''''
          \<lparr>query_type = ''restaurant'', query = ''Find me Italian food''\<rparr>
          (snd (generate_response_begin ''Seattle, US'' ''''
                  \<lparr>query_type = ''trip'', query = ''Seattle to Portland''\<rparr>
                  \<lparr>system = '''', tools = []\<rparr>))))
     \<noteq> tools (snd (generate_response_begin ''Seattle, US'' ''''
          \<lparr>query_type = ''trip'', query = ''Seattle to Portland''\<rparr>
          \<lparr>system = '''', tools = []\<rparr>))
   \<and> system (snd (generate_response_begin ''Seattle, US'' ''''
          \<lparr>query_type = ''restaurant'', query = ''Find me Italian food''\<rparr>
          (snd (generate_response_begin ''Seattle, US'' ''''
                  \<lparr>query_type = ''trip'', query = ''Seattle to Portland''\<rparr>
                  \<lparr>system = '''', tools = []\<rparr>))))
     \<noteq> system (snd (generate_response_begin ''Seattle, US'' ''''
          \<lparr>query_type = ''trip'', query = ''Seattle to Portland''\<rparr>
          \<lparr>system = '''', tools = []\<rparr>))"
  by (simp add: begin_trip begin_restaurant_place system_trip_def system_template_format_def)

text \<open>
  C2 (amended). The system prompt and the active tool set belong to the one process-wide
  assistant object. The first step of a query of a supported type overwrites both with
  values that depend on that query alone (its type, the location and the preferences)
  and not on what the object held, so of two queries that overlap the one that started
  last determines them; a query of an unsupported type leaves the object as it is.
\<close>

theorem shared_assistant_last_writer:
  "(query_type q \<in> {''trip'', ''restaurant'', ''place''} \<longrightarrow>
       system (snd (generate_response_begin l p q a))
         = system (snd (generate_response_begin l p q b))
     \<and> tools (snd (generate_response_begin l p q a))
         = tools (snd (generate_response_begin l p q b)))
   \<and> (query_type q \<notin> {''trip'', ''restaurant'', ''place''} \<longrightarrow>
       snd (generate_response_begin l p q a) = a)"
proof (intro conjI impI)
  assume "query_type q \<in> {''trip'', ''restaurant'', ''place''}"
  then consider (trip) "query_type q = ''trip''"
    | (other) "query_type q \<in> {''restaurant'', ''place''}"
    by auto
  then have "system (snd (generate_response_begin l p q a))
         = system (snd (generate_response_begin l p q b))
     \<and> tools (snd (generate_response_begin l p q a))
         = tools (snd (generate_response_begin l p q b))"
  proof cases
    case trip
    then show ?thesis by (simp add: begin_trip)
  next
    case other
    then show ?thesis by (simp add: begin_restaurant_place)
  qed
  then show "system (snd (generate_response_begin l p q a))
         = system (snd (generate_response_begin l p q b))"
    and "tools (snd (generate_response_begin l p q a))
         = tools (snd (generate_response_begin l p q b))"
    by simp_all
next
  assume "query_type q \<notin> {''trip'', ''restaurant'', ''place''}"
  then show "snd (generate_response_begin l p q a) = a"
    by (simp add: begin_invalid)
qed

theorem shared_assistant_last_writer_witness:
  "query_type \<lparr>query_type = ''place'', query = ''a museum''\<rparr> \<in> {''trip'', ''restaurant'', ''place''}
   \<and> tools (snd (generate_response_begin ''Seattle, US'' ''''
          \<lparr>query_type = ''place'', query = ''a museum''\<rparr>
          \<lparr>system = system_trip,
            tools = [SearchInternet, ReadWebsite, Geocode, GetDistanceMatrix, OptimizeRoute]\<rparr>))
     = tools (snd (generate_response_begin ''Seattle, US'' ''''
          \<lparr>query_type = ''place'', query = ''a museum''\<rparr> \<lparr>system = '''', tools = []\<rparr>))
   \<and> query_type \<lparr>query_type = ''hotel'', query = ''a room''\<rparr> \<notin> {''trip'', ''restaurant'', ''place''}
   \<and> snd (generate_response_begin ''Seattle, US'' ''''
          \<lparr>query_type = ''hotel'', query = ''a room''\<rparr> \<lparr>system = system_trip, tools = [Geocode]\<rparr>)
     = \<lparr>system = system_trip, tools = [Geocode]\<rparr>"
  using shared_assistant_last_writer
      [of "\<lparr>query_type = ''place'', query = ''a museum''\<rparr>" "''Seattle, US''" "''''"
          "\<lparr>system = system_trip,
            tools = [SearchInternet, ReadWebsite, Geocode, GetDistanceMatrix, OptimizeRoute]\<rparr>"
          "\<lparr>system = '''', tools = []\<rparr>"]
    shared_assistant_last_writer
      [of "\<lparr>query_type = ''hotel'', query = ''a room''\<rparr>" "''Seattle, US''" "''''"
          "\<lparr>system = system_trip, tools = [Geocode]\<rparr>"]
  by simp

section \<open>Properties of the other endpoints\<close>

lemma serve_user_preferences:
  "user_preferences (snd (serve env r s)) =
     user_preferences s @ (case r of POST_add_preference pref \<Rightarrow> [preference pref] | _ \<Rightarrow> [])"
  by (cases r) (simp_all add: add_preference_def query_assistant_unfold)

lemma added_step:
  "added ((env, r) # rest) =
     (case r of POST_add_preference pref \<Rightarrow> [preference pref] | _ \<Rightarrow> []) @ added rest"
  by (cases r) simp_all

lemma serve_all_user_preferences:
  "user_preferences (serve_all rs s) = user_preferences s @ added rs"
proof (induction rs arbitrary: s)
  case Nil
  show ?case by simp
next
  case (Cons er rs)
  obtain env r where er: "er = (env, r)" by (cases er)
  have "user_preferences (serve_all (er # rs) s)
          = user_preferences (snd (serve env r s)) @ added rs"
    using Cons.IH [of "snd (serve env r s)"] by (simp add: er)
  also have "\<dots> = user_preferences s @ added (er # rs)"
    by (simp only: serve_user_preferences er added_step append_assoc)
  finally show ?case .
qed

text \<open>
  C7. \<open>/location\<close> returns the dictionary with the keys city, country and latlng, each
  holding the attribute of that name of the IP lookup's result, and no other: whatever
  else the lookup's result carries is dropped. The call changes nothing in the process.
\<close>

theorem location_fields:
  "city (get_location g) = city g
   \<and> country (get_location g) = country g
   \<and> latlng (get_location g) = latlng g
   \<and> get_location g = ip_result.truncate g
   \<and> serve env GET_location s
       = (LocationReply \<lparr>city = city (ip_lookup env), country = country (ip_lookup env),
                         latlng = latlng (ip_lookup env)\<rparr>, s)"
  by (simp add: get_location_def ip_result.truncate_def)

text \<open>
  C8. The preference list is one list of the process. \<open>/add_preference\<close> appends its
  preference to it and returns the message \<open>Added preference: <preference>\<close>; after any
  sequence of requests to any of the endpoints, \<open>/preferences\<close> returns the list the
  process had before them followed by every preference those requests added, in the
  order of the requests. No handler looks at who is calling.
\<close>

theorem preferences_process_wide:
  "add_preference pref s =
     ([''message'' \<mapsto> ''Added preference: '' @ preference pref],
      s\<lparr>user_preferences := user_preferences s @ [preference pref]\<rparr>)
   \<and> get_preferences (serve_all rs s) = [''preferences'' \<mapsto> user_preferences s @ added rs]
   \<and> serve env GET_preferences (serve_all rs s)
       = (PreferencesReply [''preferences'' \<mapsto> user_preferences s @ added rs], serve_all rs s)"
  by (simp add: add_preference_def get_preferences_def serve_all_user_preferences)

lemma tourguide_cases:
  "query_everywhere_tourguide tour request loc =
    (if float_is_false (lat request) \<or> float_is_false (lon request)
     then (case latlng loc of
             None \<Rightarrow> Inl TypeError
           | Some (la # lo # _) \<Rightarrow>
               Inr (StreamingResponse
                      (tour (base_image request) (masked_image request)
                         (if location request = []
                          then py_str (city loc) @ '', '' @ py_str (country loc)
                          else location request)
                         la lo)
                      ''text/event-stream'')
           | Some _ \<Rightarrow> Inl IndexError)
     else Inr (StreamingResponse
                 (tour (base_image request) (masked_image request)
                    (if location request = []
                     then py_str (city loc) @ '', '' @ py_str (country loc)
                     else location request)
                    (lat request) (lon request))
                 ''text/event-stream''))"
  by (simp add: query_everywhere_tourguide_def Let_def split: option.splits list.splits)

text \<open>
  C10 (as stated, refuted). The claim holds for every request with \<open>lat\<close> or \<open>lon\<close> equal to
  0.0. Here \<open>lat\<close> is 0.0 and the IP lookup has failed, so \<open>location["latlng"]\<close> is \<open>None\<close>:
  the handler raises \<open>TypeError\<close> at line 89, nothing is replaced and
  \<open>run_everywhere_tour_guide\<close> is not invoked. A lookup with a single coordinate raises
  \<open>IndexError\<close> in the same place.
\<close>

theorem tourguide_failed_lookup_counterexample:
  "lat \<lparr>base_image = ''img'', masked_image = ''mask'', location = ''Seattle, US'',
         lat = Finite 0, lon = Finite 13\<rparr> = Finite 0
   \<and> query_everywhere_tourguide TourGuideRequest.make
         \<lparr>base_image = ''img'', masked_image = ''mask'', location = ''Seattle, US'',
           lat = Finite 0, lon = Finite 13\<rparr>
         \<lparr>city = None, country = None, latlng = None\<rparr>
       = Inl TypeError
   \<and> query_everywhere_tourguide TourGuideRequest.make
         \<lparr>base_image = ''img'', masked_image = ''mask'', location = ''Seattle, US'',
           lat = Finite 0, lon = Finite 13\<rparr>
         \<lparr>city = Some ''Seattle'', country = Some ''US'', latlng = Some [Finite 47]\<rparr>
       = Inl IndexError"
  by (simp add: query_everywhere_tourguide_def)

text \<open>
  C10 (amended). When \<open>/tourguide\<close> is called with \<open>lat\<close> or \<open>lon\<close> equal to 0.0 and the IP
  lookup has coordinates (a list of at least two), \<open>run_everywhere_tour_guide\<close> is invoked
  with both coordinates replaced by the lookup's first two; and whenever it is invoked
  for such a request, the coordinates it gets are the lookup's, so a supplied 0.0 never
  reaches it. When the request's location is the empty string, the location passed in
  any invocation is the lookup's "city, country".
\<close>

theorem tourguide_replaces_zero_coordinates:
  "(lat request = Finite 0 \<or> lon request = Finite 0 \<longrightarrow>
      (\<forall>la lo rest. latlng loc = Some (la # lo # rest) \<longrightarrow>
          query_everywhere_tourguide tour request loc =
            Inr (StreamingResponse
                   (tour (base_image request) (masked_image request)
                      (if location request = []
                       then py_str (city loc) @ '', '' @ py_str (country loc)
                       else location request)
                      la lo)
                   ''text/event-stream''))
      \<and> (\<forall>r. query_everywhere_tourguide tour request loc = Inr r \<longrightarrow>
            (\<exists>la lo rest. latlng loc = Some (la # lo # rest)
               \<and> body r = tour (base_image request) (masked_image request)
                            (if location request = []
                             then py_str (city loc) @ '', '' @ py_str (country loc)
                             else location request)
                            la lo)))
   \<and> (location request = [] \<longrightarrow>
        (\<forall>r. query_everywhere_tourguide tour request loc = Inr r \<longrightarrow>
           (\<exists>la lo. body r = tour (base_image request) (masked_image request)
                               (py_str (city loc) @ '', '' @ py_str (country loc)) la lo)))"
proof (intro conjI impI allI)
  fix la lo rest
  assume "lat request = Finite 0 \<or> lon request = Finite 0"
    and "latlng loc = Some (la # lo # rest)"
  then show "query_everywhere_tourguide tour request loc =
            Inr (StreamingResponse
                   (tour (base_image request) (masked_image request)
                      (if location request = []
                       then py_str (city loc) @ '', '' @ py_str (country loc)
                       else location request)
                      la lo)
                   ''text/event-stream'')"
    by (auto simp add: query_everywhere_tourguide_def)
next
  fix r
  assume z: "lat request = Finite 0 \<or> lon request = Finite 0"
    and r: "query_everywhere_tourguide tour request loc = Inr r"
  from z have f: "float_is_false (lat request) \<or> float_is_false (lon request)"
    by auto
  show "\<exists>la lo rest. latlng loc = Some (la # lo # rest)
               \<and> body r = tour (base_image request) (masked_image request)
                            (if location request = []
                             then py_str (city loc) @ '', '' @ py_str (country loc)
                             else location request)
                            la lo"
  proof (cases "latlng loc")
    case None
    with f r show ?thesis
      by (simp add: tourguide_cases)
  next
    case (Some xs)
    show ?thesis
    proof (cases xs)
      case Nil
      with Some f r show ?thesis
        by (simp add: tourguide_cases)
    next
      case (Cons la ys)
      show ?thesis
      proof (cases ys)
        case Nil
        with Cons Some f r show ?thesis
          by (simp add: tourguide_cases)
      next
        case (Cons lo rest)
        with \<open>xs = la # ys\<close> Some f r
        have "body r = tour (base_image request) (masked_image request)
                            (if location request = []
                             then py_str (city loc) @ '', '' @ py_str (country loc)
                             else location request)
                            la lo"
          by (auto simp add: tourguide_cases StreamingResponse_def)
        with Cons \<open>xs = la # ys\<close> Some show ?thesis by blast
      qed
    qed
  qed
next
  fix r
  assume "location request = []" and "query_everywhere_tourguide tour request loc = Inr r"
  then show "\<exists>la lo. body r = tour (base_image request) (masked_image request)
                               (py_str (city loc) @ '', '' @ py_str (country loc)) la lo"
    by (auto simp add: tourguide_cases StreamingResponse_def
          split: if_splits option.splits list.splits) blast+
qed

theorem tourguide_replaces_zero_coordinates_witness:
  "lat \<lparr>base_image = ''img'', masked_image = ''mask'', location = [],
         lat = Finite 0, lon = Finite 13\<rparr> = Finite 0
   \<and> latlng \<lparr>city = Some ''Seattle'', country = Some ''US'',
              latlng = Some [Finite 47, Finite (-122)]\<rparr>
       = Some [Finite 47, Finite (-122)]
   \<and> location \<lparr>base_image = ''img'', masked_image = ''mask'', location = [],
         lat = Finite 0, lon = Finite 13\<rparr> = []
   \<and> query_everywhere_tourguide (\<lambda>b m l la lo. (b, m, l, la, lo))
         \<lparr>base_image = ''img'', masked_image = ''mask'', location = [],
           lat = Finite 0, lon = Finite 13\<rparr>
         \<lparr>city = Some ''Seattle'', country = Some ''US'',
           latlng = Some [Finite 47, Finite (-122)]\<rparr>
       = Inr \<lparr>status_code = 200, media_type = ''text/event-stream'',
              body = (''img'', ''mask'', ''Seattle, US'', Finite 47, Finite (-122))\<rparr>"
  using tourguide_replaces_zero_coordinates
      [of "\<lparr>base_image = ''img'', masked_image = ''mask'', location = [],
             lat = Finite 0, lon = Finite 13\<rparr>"
          "\<lparr>city = Some ''Seattle'', country = Some ''US'',
            latlng = Some [Finite 47, Finite (-122)]\<rparr>"
          "\<lambda>b m l la lo. (b, m, l, la, lo)"]
  by (simp add: StreamingResponse_def)

section \<open>Properties of the assistant loop\<close>

lemma loop_limit:
  "max_rounds \<le> n \<Longrightarrow>
   assistant_loop max_rounds model sched conv n =
     \<lparr>final = Failed LoopLimitExceeded, transcript = conv, rounds = n,
      emitted = [Failure LoopLimitExceeded]\<rparr>"
  by (simp add: assistant_loop.simps)

lemma loop_errored:
  "n < max_rounds \<Longrightarrow> model conv = (fs, Errored) \<Longrightarrow>
   assistant_loop max_rounds model sched conv n =
     \<lparr>final = Failed ModelStreamError, transcript = conv, rounds = Suc n,
      emitted = map TextEvent (text_before_tool_call fs) @ [Failure ModelStreamError]\<rparr>"
  by (simp add: assistant_loop.simps)

lemma loop_done:
  "n < max_rounds \<Longrightarrow> model conv = (fs, Completed) \<Longrightarrow> tool_call_requests fs = [] \<Longrightarrow>
   assistant_loop max_rounds model sched conv n =
     \<lparr>final = Done,
      transcript = conv\<lparr>messages := messages conv @ turn_messages (text_before_tool_call fs) [] []\<rparr>,
      rounds = Suc n,
      emitted = map TextEvent (text_before_tool_call fs) @ [Completion]\<rparr>"
  by (simp add: assistant_loop.simps)

lemma loop_tools:
  "n < max_rounds \<Longrightarrow> model conv = (fs, Completed) \<Longrightarrow> tool_call_requests fs \<noteq> [] \<Longrightarrow>
   assistant_loop max_rounds model sched conv n =
     (assistant_loop max_rounds model sched
        (extend_conversation conv fs (sched n (tool_call_requests fs))) (Suc n))
     \<lparr>emitted := turn_events conv fs (sched n (tool_call_requests fs)) @
        emitted (assistant_loop max_rounds model sched
          (extend_conversation conv fs (sched n (tool_call_requests fs))) (Suc n))\<rparr>"
  by (subst assistant_loop.simps) (simp add: Let_def)

lemma rounds_le: "rounds (assistant_loop max_rounds model sched conv n) \<le> max max_rounds n"
proof (induction max_rounds model sched conv n rule: assistant_loop.induct)
  case (1 max_rounds model sched conv n)
  show ?case
  proof (cases "max_rounds \<le> n")
    case True
    then show ?thesis by (simp add: loop_limit)
  next
    case False
    then have lt: "n < max_rounds" by simp
    obtain fs mk where m: "model conv = (fs, mk)" by (cases "model conv")
    show ?thesis
    proof (cases mk)
      case Errored
      with lt m show ?thesis by (simp add: loop_errored)
    next
      case Completed
      show ?thesis
      proof (cases "tool_call_requests fs = []")
        case True
        with lt m Completed show ?thesis by (simp add: loop_done)
      next
        case nonempty: False
        have "rounds (assistant_loop max_rounds model sched
                (extend_conversation conv fs (sched n (tool_call_requests fs))) (Suc n))
              \<le> max max_rounds (Suc n)"
          using "1.IH" [OF False m [symmetric] Completed nonempty refl] .
        with lt m Completed nonempty show ?thesis by (simp add: loop_tools)
      qed
    qed
  qed
qed

lemma persistent_model_hits_limit:
  "(\<forall>conv. snd (model conv) = Completed \<and> tool_call_requests (fst (model conv)) \<noteq> []) \<Longrightarrow>
   n \<le> max_rounds \<Longrightarrow>
     final (assistant_loop max_rounds model sched conv n) = Failed LoopLimitExceeded
   \<and> rounds (assistant_loop max_rounds model sched conv n) = max_rounds
   \<and> (\<exists>es. emitted (assistant_loop max_rounds model sched conv n) = es @ [Failure LoopLimitExceeded])"
proof (induction max_rounds model sched conv n rule: assistant_loop.induct)
  case (1 max_rounds model sched conv n)
  note p = "1.prems"(1)
  show ?case
  proof (cases "max_rounds \<le> n")
    case True
    with "1.prems" have "n = max_rounds" by simp
    then show ?thesis by (simp add: loop_limit)
  next
    case False
    then have lt: "n < max_rounds" by simp
    obtain fs mk where m: "model conv = (fs, mk)" by (cases "model conv")
    have c: "mk = Completed" and ne: "tool_call_requests fs \<noteq> []"
      using p [rule_format, of conv] by (simp_all add: m)
    have "Suc n \<le> max_rounds" using lt by simp
    from "1.IH" [OF False m [symmetric] c ne refl p this]
    obtain es where
      f: "final (assistant_loop max_rounds model sched
            (extend_conversation conv fs (sched n (tool_call_requests fs))) (Suc n))
          = Failed LoopLimitExceeded"
      and r: "rounds (assistant_loop max_rounds model sched
            (extend_conversation conv fs (sched n (tool_call_requests fs))) (Suc n))
          = max_rounds"
      and e: "emitted (assistant_loop max_rounds model sched
            (extend_conversation conv fs (sched n (tool_call_requests fs))) (Suc n))
          = es @ [Failure LoopLimitExceeded]"
      by blast
    have "emitted (assistant_loop max_rounds model sched conv n)
            = (turn_events conv fs (sched n (tool_call_requests fs)) @ es)
              @ [Failure LoopLimitExceeded]"
      using lt m c ne e by (simp add: loop_tools)
    then have "\<exists>es. emitted (assistant_loop max_rounds model sched conv n)
            = es @ [Failure LoopLimitExceeded]" ..
    then show ?thesis using lt m c ne f r by (simp add: loop_tools)
  qed
qed


text \<open>
  C4. The loop makes at most the configured maximum number of rounds, whatever the model
  answers and in whatever order the tool executions complete: the function is total
  (its termination is proved with the measure \<open>max_rounds - n\<close>) and counts no more
  than \<open>max_rounds\<close> requests to the model. With a model that completes every response
  and requests at least one tool call in each, the loop ends in \<open>Failed\<close> with
  \<open>LoopLimitExceeded\<close> after exactly \<open>max_rounds\<close> rounds, and the last StreamEvent is the
  terminal failure event.
\<close>

theorem loop_round_limit:
  "rounds (answer_query max_rounds model sched prompt registry text) \<le> max_rounds
   \<and> ((\<forall>conv. snd (model conv) = Completed \<and> tool_call_requests (fst (model conv)) \<noteq> []) \<longrightarrow>
         final (answer_query max_rounds model sched prompt registry text) = Failed LoopLimitExceeded
       \<and> rounds (answer_query max_rounds model sched prompt registry text) = max_rounds
       \<and> (\<exists>es. emitted (answer_query max_rounds model sched prompt registry text)
                  = es @ [Failure LoopLimitExceeded]))"
proof (intro conjI impI)
  show "rounds (answer_query max_rounds model sched prompt registry text) \<le> max_rounds"
    using rounds_le [of max_rounds model sched _ 0] by (simp add: answer_query_def)
next
  assume p: "\<forall>conv. snd (model conv) = Completed \<and> tool_call_requests (fst (model conv)) \<noteq> []"
  show "final (answer_query max_rounds model sched prompt registry text) = Failed LoopLimitExceeded"
    and "rounds (answer_query max_rounds model sched prompt registry text) = max_rounds"
    and "\<exists>es. emitted (answer_query max_rounds model sched prompt registry text)
                  = es @ [Failure LoopLimitExceeded]"
    using persistent_model_hits_limit [OF p, of 0 max_rounds sched]
    by (simp_all add: answer_query_def)
qed

theorem loop_round_limit_witness:
  "(\<forall>conv. snd ((\<lambda>c. ([ToolCallFragment \<lparr>toolName = ''SearchInternet'', arguments = ''pizza''\<rparr>],
                          Completed)) conv) = Completed
         \<and> tool_call_requests
             (fst ((\<lambda>c. ([ToolCallFragment \<lparr>toolName = ''SearchInternet'', arguments = ''pizza''\<rparr>],
                          Completed)) conv)) \<noteq> [])
   \<and> final (answer_query 10
        (\<lambda>c. ([ToolCallFragment \<lparr>toolName = ''SearchInternet'', arguments = ''pizza''\<rparr>], Completed))
        (\<lambda>n reqs. [0..<length reqs]) ''prompt'' [] ''Find me Italian food'')
       = Failed LoopLimitExceeded
   \<and> rounds (answer_query 10
        (\<lambda>c. ([ToolCallFragment \<lparr>toolName = ''SearchInternet'', arguments = ''pizza''\<rparr>], Completed))
        (\<lambda>n reqs. [0..<length reqs]) ''prompt'' [] ''Find me Italian food'')
       = 10"
  using loop_round_limit
    [of 10 "\<lambda>c. ([ToolCallFragment \<lparr>toolName = ''SearchInternet'', arguments = ''pizza''\<rparr>], Completed)"
        "\<lambda>n reqs. [0..<length reqs]" "''prompt''" "[]" "''Find me Italian food''"]
  by simp

lemma results_in_request_order_perm:
  assumes "mset order = mset [0..<length reqs]"
  shows "results_in_request_order (completions registry reqs order)
           = map (tool_executor registry) reqs"
proof -
  let ?g = "\<lambda>i. (i, tool_executor registry (reqs ! i))"
  have "set order = {0..<length reqs}"
    using assms by (metis set_mset_mset set_upt)
  then have all: "filter (\<lambda>i. i < length reqs) order = order"
    by (simp add: filter_id_conv)
  have "sort_key fst (map ?g order) = map ?g [0..<length reqs]"
  proof (rule sort_key_inj_key_eq)
    show "mset (map ?g order) = mset (map ?g [0..<length reqs])"
      using assms by (metis mset_map)
    show "inj_on fst (set (map ?g order))"
      by (auto simp add: inj_on_def)
    have "map fst (map ?g [0..<length reqs]) = [0..<length reqs]"
      by (simp add: comp_def)
    then show "sorted (map fst (map ?g [0..<length reqs]))"
      by (simp only: sorted_upt)
  qed
  then have "results_in_request_order (completions registry reqs order)
               = map (\<lambda>i. tool_executor registry (reqs ! i)) [0..<length reqs]"
    by (simp add: results_in_request_order_def completions_def all comp_def)
  also have "\<dots> = map (tool_executor registry) (map ((!) reqs) [0..<length reqs])"
    by (simp add: comp_def)
  also have "\<dots> = map (tool_executor registry) reqs"
    by (simp only: map_nth)
  finally show ?thesis .
qed


lemma loop_appends:
  "prefix (messages conv) (messages (transcript (assistant_loop max_rounds model sched conv n)))"
proof (induction max_rounds model sched conv n rule: assistant_loop.induct)
  case (1 max_rounds model sched conv n)
  show ?case
  proof (cases "max_rounds \<le> n")
    case True
    then show ?thesis by (simp add: loop_limit)
  next
    case False
    then have lt: "n < max_rounds" by simp
    obtain fs mk where m: "model conv = (fs, mk)" by (cases "model conv")
    show ?thesis
    proof (cases mk)
      case Errored
      with lt m show ?thesis by (simp add: loop_errored)
    next
      case Completed
      show ?thesis
      proof (cases "tool_call_requests fs = []")
        case True
        with lt m Completed show ?thesis by (simp add: loop_done)
      next
        case nonempty: False
        let ?conv' = "extend_conversation conv fs (sched n (tool_call_requests fs))"
        have "prefix (messages ?conv')
                (messages (transcript (assistant_loop max_rounds model sched ?conv' (Suc n))))"
          using "1.IH" [OF False m [symmetric] Completed nonempty refl] .
        moreover have "prefix (messages conv) (messages ?conv')"
          by (simp add: extend_conversation_def)
        ultimately have "prefix (messages conv)
                (messages (transcript (assistant_loop max_rounds model sched ?conv' (Suc n))))"
          by (rule prefix_order.trans [rotated])
        with lt m Completed nonempty show ?thesis by (simp add: loop_tools)
      qed
    qed
  qed
qed

lemma loop_keeps_turn:
  assumes "n < max_rounds" and "model conv = (fs, Completed)"
  shows "prefix (messages (extend_conversation conv fs (sched n (tool_call_requests fs))))
           (messages (transcript (assistant_loop max_rounds model sched conv n)))"
proof (cases "tool_call_requests fs = []")
  case True
  with assms show ?thesis
    by (simp add: loop_done extend_conversation_def completions_def results_in_request_order_def)
next
  case False
  with assms show ?thesis
    by (simp add: loop_tools loop_appends)
qed

lemma tool_messages_of_turn:
  "filter (\<lambda>m. role m = RoleTool) (turn_messages texts reqs results)
     = map (\<lambda>r. \<lparr>role = RoleTool, content = ToolResult r\<rparr>) results"
  by (simp add: turn_messages_def filter_id_conv)

text \<open>
  C5. When the model issues N tool-call requests in one turn and their executions
  complete in any order (\<open>order\<close> is any permutation of the positions 0 to N-1), the
  \<open>tool\<close> messages that the turn adds to the Conversation are exactly N, the k-th being
  the Tool Executor's result for the k-th request. The loop keeps them: the Conversation
  it ends with begins with the Conversation as that turn extended it.
\<close>

theorem tool_results_in_request_order:
  assumes "mset order = mset [0..<length (tool_call_requests fs)]"
  shows "filter (\<lambda>m. role m = RoleTool)
           (drop (length (messages conv)) (messages (extend_conversation conv fs order)))
         = map (\<lambda>req. \<lparr>role = RoleTool,
                         content = ToolResult (tool_executor (activeTools conv) req)\<rparr>)
             (tool_call_requests fs)
       \<and> (n < max_rounds \<and> model conv = (fs, Completed) \<and> sched n (tool_call_requests fs) = order
            \<longrightarrow> prefix (messages (extend_conversation conv fs order))
                  (messages (transcript (assistant_loop max_rounds model sched conv n))))"
proof (intro conjI impI)
  show "filter (\<lambda>m. role m = RoleTool)
           (drop (length (messages conv)) (messages (extend_conversation conv fs order)))
         = map (\<lambda>req. \<lparr>role = RoleTool,
                         content = ToolResult (tool_executor (activeTools conv) req)\<rparr>)
             (tool_call_requests fs)"
    by (simp add: extend_conversation_def tool_messages_of_turn
          results_in_request_order_perm [OF assms] comp_def)
next
  assume "n < max_rounds \<and> model conv = (fs, Completed) \<and> sched n (tool_call_requests fs) = order"
  then show "prefix (messages (extend_conversation conv fs order))
                  (messages (transcript (assistant_loop max_rounds model sched conv n)))"
    using loop_keeps_turn [of n max_rounds model conv fs sched] by auto
qed


theorem tool_results_in_request_order_witness:
  "mset [2, 0, 1] = mset [0..<length (tool_call_requests
          [TextFragment ''Looking. '',
           ToolCallFragment \<lparr>toolName = ''SearchInternet'', arguments = ''pizza''\<rparr>,
           ToolCallFragment \<lparr>toolName = ''Fly'', arguments = ''now''\<rparr>,
           ToolCallFragment \<lparr>toolName = ''SearchInternet'', arguments = []\<rparr>])]
   \<and> filter (\<lambda>m. role m = RoleTool)
        (drop (length (messages
          \<lparr>systemPrompt = ''p'',
           activeTools = [\<lparr>name = ''SearchInternet'', description = ''web search'',
                           parameterSchema = (\<lambda>a. a \<noteq> []),
                           execute = (\<lambda>a. Some (''results for '' @ a))\<rparr>],
           messages = [\<lparr>role = RoleUser, content = Text ''Find me Italian food''\<rparr>]\<rparr>))
          (messages (extend_conversation
          \<lparr>systemPrompt = ''p'',
           activeTools = [\<lparr>name = ''SearchInternet'', description = ''web search'',
                           parameterSchema = (\<lambda>a. a \<noteq> []),
                           execute = (\<lambda>a. Some (''results for '' @ a))\<rparr>],
           messages = [\<lparr>role = RoleUser, content = Text ''Find me Italian food''\<rparr>]\<rparr>
          [TextFragment ''Looking. '',
           ToolCallFragment \<lparr>toolName = ''SearchInternet'', arguments = ''pizza''\<rparr>,
           ToolCallFragment \<lparr>toolName = ''Fly'', arguments = ''now''\<rparr>,
           ToolCallFragment \<lparr>toolName = ''SearchInternet'', arguments = []\<rparr>]
          [2, 0, 1])))
       = [\<lparr>role = RoleTool,
           content = ToolResult \<lparr>ofTool = ''SearchInternet'', outcome = Inr ''results for pizza''\<rparr>\<rparr>,
          \<lparr>role = RoleTool,
           content = ToolResult \<lparr>ofTool = ''Fly'', outcome = Inl UnknownToolError\<rparr>\<rparr>,
          \<lparr>role = RoleTool,
           content = ToolResult \<lparr>ofTool = ''SearchInternet'', outcome = Inl ToolArgumentError\<rparr>\<rparr>]
   \<and> (0::nat) < 2
   \<and> prefix (messages (extend_conversation
          \<lparr>systemPrompt = ''p'',
           activeTools = [\<lparr>name = ''SearchInternet'', description = ''web search'',
                           parameterSchema = (\<lambda>a. a \<noteq> []),
                           execute = (\<lambda>a. Some (''results for '' @ a))\<rparr>],
           messages = [\<lparr>role = RoleUser, content = Text ''Find me Italian food''\<rparr>]\<rparr>
          [TextFragment ''Looking. '',
           ToolCallFragment \<lparr>toolName = ''SearchInternet'', arguments = ''pizza''\<rparr>,
           ToolCallFragment \<lparr>toolName = ''Fly'', arguments = ''now''\<rparr>,
           ToolCallFragment \<lparr>toolName = ''SearchInternet'', arguments = []\<rparr>]
          [2, 0, 1]))
        (messages (transcript (assistant_loop 2
          (\<lambda>c. ([TextFragment ''Looking. '',
                 ToolCallFragment \<lparr>toolName = ''SearchInternet'', arguments = ''pizza''\<rparr>,
                 ToolCallFragment \<lparr>toolName = ''Fly'', arguments = ''now''\<rparr>,
                 ToolCallFragment \<lparr>toolName = ''SearchInternet'', arguments = []\<rparr>], Completed))
          (\<lambda>n reqs. [2, 0, 1])
          \<lparr>systemPrompt = ''p'',
           activeTools = [\<lparr>name = ''SearchInternet'', description = ''web search'',
                           parameterSchema = (\<lambda>a. a \<noteq> []),
                           execute = (\<lambda>a. Some (''results for '' @ a))\<rparr>],
           messages = [\<lparr>role = RoleUser, content = Text ''Find me Italian food''\<rparr>]\<rparr>
          0)))"
  using tool_results_in_request_order
    [of "[2, 0, 1]"
        "[TextFragment ''Looking. '',
           ToolCallFragment \<lparr>toolName = ''SearchInternet'', arguments = ''pizza''\<rparr>,
           ToolCallFragment \<lparr>toolName = ''Fly'', arguments = ''now''\<rparr>,
           ToolCallFragment \<lparr>toolName = ''SearchInternet'', arguments = []\<rparr>]"
        "\<lparr>systemPrompt = ''p'',
           activeTools = [\<lparr>name = ''SearchInternet'', description = ''web search'',
                           parameterSchema = (\<lambda>a. a \<noteq> []),
                           execute = (\<lambda>a. Some (''results for '' @ a))\<rparr>],
           messages = [\<lparr>role = RoleUser, content = Text ''Find me Italian food''\<rparr>]\<rparr>"
        0 2
        "\<lambda>c. ([TextFragment ''Looking. '',
                 ToolCallFragment \<lparr>toolName = ''SearchInternet'', arguments = ''pizza''\<rparr>,
                 ToolCallFragment \<lparr>toolName = ''Fly'', arguments = ''now''\<rparr>,
                 ToolCallFragment \<lparr>toolName = ''SearchInternet'', arguments = []\<rparr>], Completed)"
        "\<lambda>n reqs. [2, 0, 1]"]
  by (simp add: tool_executor_def upt_rec)

end
